theory Spec2Isabelle
  imports Main "HOL-Library.Word" "HOL-Library.Log_Nat"
begin

section \<open>The D3D9 common texture (src/d3d9/d3d9_common_texture.h)\<close>

subsection \<open>Scalar types and enumerations\<close>

type_synonym UINT = "32 word"
type_synonym DWORD = "32 word"
type_synonym VkDeviceSize = "64 word"

text \<open>The image memory mapping mode, as the header declares it.\<close>

datatype D3D9_COMMON_TEXTURE_MAP_MODE =
    D3D9_COMMON_TEXTURE_MAP_MODE_NONE
  | D3D9_COMMON_TEXTURE_MAP_MODE_BACKED
  | D3D9_COMMON_TEXTURE_MAP_MODE_SYSTEMMEM

text \<open>
  The enumeration \<open>D3D9Format\<close> is declared in d3d9_format.h, which is not among the
  sources. The header names two of its enumerators, \<open>R8G8B8\<close> and \<open>NULL_FORMAT\<close>;
  every other format is \<open>OtherFormat\<close> with its numeric value.
\<close>

datatype D3D9Format = R8G8B8 | NULL_FORMAT | OtherFormat nat

text \<open>The memory pools of the Direct3D 9 API (\<open>D3DPOOL\<close>).\<close>

datatype D3DPOOL =
    D3DPOOL_DEFAULT
  | D3DPOOL_MANAGED
  | D3DPOOL_SYSTEMMEM
  | D3DPOOL_SCRATCH

datatype D3DRESOURCETYPE =
    D3DRTYPE_SURFACE
  | D3DRTYPE_VOLUME
  | D3DRTYPE_TEXTURE
  | D3DRTYPE_VOLUMETEXTURE
  | D3DRTYPE_CUBETEXTURE

datatype VkImageTiling =
    VK_IMAGE_TILING_OPTIMAL
  | VK_IMAGE_TILING_LINEAR

datatype VkImageLayout =
    VK_IMAGE_LAYOUT_UNDEFINED
  | VK_IMAGE_LAYOUT_GENERAL
  | VK_IMAGE_LAYOUT_COLOR_ATTACHMENT_OPTIMAL
  | VK_IMAGE_LAYOUT_DEPTH_STENCIL_ATTACHMENT_OPTIMAL
  | VK_IMAGE_LAYOUT_SHADER_READ_ONLY_OPTIMAL

subsection \<open>Reference-counted handles\<close>

text \<open>
  \<open>Rc<T>\<close> is a nullable reference-counted pointer. Two handles are equal when they
  point to the same object; objects carry an identity for that purpose.
\<close>

datatype 'a Rc = nullptr | Ptr 'a

text \<open>A buffer object is known here by its identity only.\<close>

datatype DxvkBuffer = DxvkBuffer nat

record DxvkImageCreateInfo =
  sampleCount :: nat
  tiling :: VkImageTiling

record DxvkImage =
  imageId :: nat
  info :: DxvkImageCreateInfo

record DxvkImageView =
  viewId :: nat
  image :: DxvkImage

definition imageInfo :: "DxvkImageView \<Rightarrow> DxvkImageCreateInfo" where
  "imageInfo v = info (image v)"

subsection \<open>The description and the view set\<close>

text \<open>
  \<open>D3D9_COMMON_TEXTURE_DESC\<close>, field by field. \<open>BOOL Discard\<close> is a truth value and
  \<open>D3DMULTISAMPLE_TYPE MultiSample\<close> the number the enumeration stands for.
\<close>

record D3D9_COMMON_TEXTURE_DESC =
  Width :: UINT
  Height :: UINT
  Depth :: UINT
  ArraySize :: UINT
  MipLevels :: UINT
  Usage :: DWORD
  Format :: D3D9Format
  Pool :: D3DPOOL
  Discard :: bool
  MultiSample :: UINT
  MultisampleQuality :: DWORD

record D3D9ColorView =
  Color :: "DxvkImageView Rc"
  Srgb :: "DxvkImageView Rc"

definition Pick :: "D3D9ColorView \<Rightarrow> bool \<Rightarrow> DxvkImageView Rc" where
  "Pick v srgb = (if srgb then Srgb v else Color v)"

text \<open>\<open>std::array<T, 6>\<close>: six elements, of which the header reads element 0.\<close>

datatype 'a array6 = Array6 'a 'a 'a 'a 'a 'a

fun elem0 :: "'a array6 \<Rightarrow> 'a" where
  "elem0 (Array6 a0 a1 a2 a3 a4 a5) = a0"

record D3D9ViewSet =
  Sample :: D3D9ColorView
  MipGenRT :: "DxvkImageView Rc"
  FaceSample :: "D3D9ColorView array6"
  FaceRenderTarget :: "D3D9ColorView array6"
  FaceDepth :: "DxvkImageView Rc array6"

definition GetRTLayout :: "D3D9ViewSet \<Rightarrow> VkImageLayout" where
  "GetRTLayout vs =
     (case Color (elem0 (FaceRenderTarget vs)) of
        nullptr \<Rightarrow> VK_IMAGE_LAYOUT_GENERAL
      | Ptr v \<Rightarrow>
          (if tiling (imageInfo v) = VK_IMAGE_TILING_OPTIMAL
           then VK_IMAGE_LAYOUT_COLOR_ATTACHMENT_OPTIMAL
           else VK_IMAGE_LAYOUT_GENERAL))"

definition GetDepthLayout :: "D3D9ViewSet \<Rightarrow> VkImageLayout" where
  "GetDepthLayout vs =
     (case elem0 (FaceDepth vs) of
        nullptr \<Rightarrow> VK_IMAGE_LAYOUT_GENERAL
      | Ptr v \<Rightarrow>
          (if tiling (imageInfo v) = VK_IMAGE_TILING_OPTIMAL
           then VK_IMAGE_LAYOUT_DEPTH_STENCIL_ATTACHMENT_OPTIMAL
           else VK_IMAGE_LAYOUT_GENERAL))"

subsection \<open>The texture object\<close>

text \<open>
  The private members of \<open>D3D9CommonTexture\<close>. The three subresource arrays are
  \<open>std::array<T, caps::MaxSubresources>\<close>; the constant is declared outside the sources,
  so the arrays are lists and \<open>subresource_arrays_sized N\<close> says that their common
  length is \<open>N\<close>. The device pointer \<open>m_device\<close> is not a field: what the texture
  obtains through it is passed to the operations that need it.
\<close>

record D3D9CommonTexture =
  m_desc :: D3D9_COMMON_TEXTURE_DESC
  m_type :: D3DRESOURCETYPE
  m_mapMode :: D3D9_COMMON_TEXTURE_MAP_MODE
  m_image :: "DxvkImage Rc"
  m_resolveImage :: "DxvkImage Rc"
  m_buffers :: "DxvkBuffer Rc list"
  m_fixupBuffers :: "DxvkBuffer Rc list"
  m_lockFlags :: "DWORD list"
  m_views :: D3D9ViewSet
  m_format :: nat
  m_shadow :: bool
  m_size :: "64 word"

definition subresource_arrays_sized :: "nat \<Rightarrow> D3D9CommonTexture \<Rightarrow> bool" where
  "subresource_arrays_sized N t \<longleftrightarrow>
     length (m_buffers t) = N \<and> length (m_fixupBuffers t) = N \<and> length (m_lockFlags t) = N"

text \<open>
  \<open>operator[]\<close> of \<open>std::array\<close> does not check its index: an index past the end is
  undefined behaviour, which the model reports as an error value. \<open>DxvkError\<close> is the
  exception of a failed allocation, \<open>D3DERR_INVALIDCALL\<close> the status of a rejected
  description.
\<close>

datatype error = UndefinedBehaviour | DxvkError | D3DERR_INVALIDCALL

definition array_at :: "'a list \<Rightarrow> UINT \<Rightarrow> error + 'a" where
  "array_at xs i = (if unat i < length xs then Inr (xs ! unat i) else Inl UndefinedBehaviour)"

definition array_assign :: "'a list \<Rightarrow> UINT \<Rightarrow> 'a \<Rightarrow> error + 'a list" where
  "array_assign xs i v =
     (if unat i < length xs then Inr (xs[unat i := v]) else Inl UndefinedBehaviour)"

definition Desc :: "D3D9CommonTexture \<Rightarrow> D3D9_COMMON_TEXTURE_DESC" where
  "Desc t = m_desc t"

definition CountSubresources :: "D3D9CommonTexture \<Rightarrow> UINT" where
  "CountSubresources t = ArraySize (m_desc t) * MipLevels (m_desc t)"

definition GetMapMode :: "D3D9CommonTexture \<Rightarrow> D3D9_COMMON_TEXTURE_MAP_MODE" where
  "GetMapMode t = m_mapMode t"

definition GetImage :: "D3D9CommonTexture \<Rightarrow> DxvkImage Rc" where
  "GetImage t = m_image t"

definition GetViews :: "D3D9CommonTexture \<Rightarrow> D3D9ViewSet" where
  "GetViews t = m_views t"

definition RequiresFixup :: "D3D9CommonTexture \<Rightarrow> bool" where
  "RequiresFixup t \<longleftrightarrow> Format (m_desc t) = R8G8B8"

definition GetMappingBuffer :: "UINT \<Rightarrow> D3D9CommonTexture \<Rightarrow> error + DxvkBuffer Rc" where
  "GetMappingBuffer Subresource t = array_at (m_buffers t) Subresource"

definition GetCopyBuffer :: "UINT \<Rightarrow> D3D9CommonTexture \<Rightarrow> error + DxvkBuffer Rc" where
  "GetCopyBuffer Subresource t =
     (if RequiresFixup t then array_at (m_fixupBuffers t) Subresource
      else array_at (m_buffers t) Subresource)"

definition SetLockFlags :: "UINT \<Rightarrow> DWORD \<Rightarrow> D3D9CommonTexture \<Rightarrow> error + D3D9CommonTexture" where
  "SetLockFlags Subresource Flags t =
     (case array_assign (m_lockFlags t) Subresource Flags of
        Inl e \<Rightarrow> Inl e
      | Inr fl \<Rightarrow> Inr (t\<lparr>m_lockFlags := fl\<rparr>))"

definition GetLockFlags :: "UINT \<Rightarrow> D3D9CommonTexture \<Rightarrow> error + DWORD" where
  "GetLockFlags Subresource t = array_at (m_lockFlags t) Subresource"

definition CalcSubresource :: "D3D9CommonTexture \<Rightarrow> UINT \<Rightarrow> UINT \<Rightarrow> UINT" where
  "CalcSubresource t Face MipLevel = Face * MipLevels (m_desc t) + MipLevel"

definition DestroyBufferSubresource :: "UINT \<Rightarrow> D3D9CommonTexture \<Rightarrow> error + D3D9CommonTexture" where
  "DestroyBufferSubresource Subresource t =
     (case array_assign (m_buffers t) Subresource nullptr of
        Inl e \<Rightarrow> Inl e
      | Inr bs \<Rightarrow>
          (case array_assign (m_fixupBuffers t) Subresource nullptr of
             Inl e \<Rightarrow> Inl e
           | Inr fs \<Rightarrow> Inr (t\<lparr>m_buffers := bs, m_fixupBuffers := fs\<rparr>)))"

definition IsManaged :: "D3D9CommonTexture \<Rightarrow> bool" where
  "IsManaged t \<longleftrightarrow> Pool (m_desc t) = D3DPOOL_MANAGED"

definition DetermineMapMode :: "D3D9CommonTexture \<Rightarrow> D3D9_COMMON_TEXTURE_MAP_MODE" where
  "DetermineMapMode t =
     (if Format (m_desc t) = NULL_FORMAT then D3D9_COMMON_TEXTURE_MAP_MODE_NONE
      else if Pool (m_desc t) = D3DPOOL_SYSTEMMEM \<or> Pool (m_desc t) = D3DPOOL_SCRATCH
        then D3D9_COMMON_TEXTURE_MAP_MODE_SYSTEMMEM
      else D3D9_COMMON_TEXTURE_MAP_MODE_BACKED)"

subsection \<open>What the sources do not contain\<close>

text \<open>
  The bodies of \<open>CreateResolveImage\<close>, \<open>CreateColorViewPair\<close> and \<open>GetMipSize\<close>, and
  the device behind \<open>m_device\<close>, are outside the sources. The operations of the header
  that call them take them as parameters. \<open>'dev\<close> is the state of the device; a call
  either fails with an error or returns the new object (never a null handle) and the
  device state after the allocation.
\<close>

record 'dev External =
  createBuffer :: "VkDeviceSize \<Rightarrow> 'dev \<Rightarrow> error + DxvkBuffer \<times> 'dev"
  CreateResolveImage :: "D3D9CommonTexture \<Rightarrow> 'dev \<Rightarrow> error + DxvkImage \<times> 'dev"
  CreateColorViewPair ::
    "D3D9CommonTexture \<Rightarrow> UINT \<Rightarrow> DWORD \<Rightarrow> UINT \<Rightarrow> 'dev \<Rightarrow> error + D3D9ColorView \<times> 'dev"
  GetMipSize :: "D3D9CommonTexture \<Rightarrow> UINT \<Rightarrow> VkDeviceSize"
  GetFixupSize :: "D3D9CommonTexture \<Rightarrow> UINT \<Rightarrow> VkDeviceSize"

definition AllLayers :: UINT where
  "AllLayers = 0xFFFFFFFF"

definition VK_IMAGE_USAGE_SAMPLED_BIT :: DWORD where
  "VK_IMAGE_USAGE_SAMPLED_BIT = 0x4"

text \<open>
  \<open>GetResolveImage\<close>: the result is the handle returned, the texture and the device
  after the call.
\<close>

definition GetResolveImage ::
  "'dev External \<Rightarrow> D3D9CommonTexture \<Rightarrow> 'dev \<Rightarrow> error + DxvkImage Rc \<times> D3D9CommonTexture \<times> 'dev" where
  "GetResolveImage ext t d =
     (if m_resolveImage t = nullptr then
        (case CreateResolveImage ext t d of
           Inl e \<Rightarrow> Inl e
         | Inr (img, d') \<Rightarrow> Inr (Ptr img, t\<lparr>m_resolveImage := Ptr img\<rparr>, d'))
      else Inr (m_resolveImage t, t, d))"

definition RecreateSampledView ::
  "'dev External \<Rightarrow> UINT \<Rightarrow> D3D9CommonTexture \<Rightarrow> 'dev \<Rightarrow> error + D3D9CommonTexture \<times> 'dev" where
  "RecreateSampledView ext Lod t d =
     (case CreateColorViewPair ext t AllLayers VK_IMAGE_USAGE_SAMPLED_BIT Lod d of
        Inl e \<Rightarrow> Inl e
      | Inr (cv, d') \<Rightarrow> Inr (t\<lparr>m_views := (m_views t)\<lparr>Sample := cv\<rparr>\<rparr>, d'))"

text \<open>
  Modelled from the spec: the body of \<open>CreateBufferSubresource\<close> is missing (the header
  declares it and documents "returns whether an allocation happened"). Section 4.4 of
  the specification: if buffers already exist for the subresource, no allocation and
  the report "no new allocation"; otherwise a mapping buffer of the size of the packed
  mip level, and, if the format requires a fixup, a second buffer of the converted size.
  The result is the report, the texture and the device after the call.
\<close>

definition CreateBufferSubresource ::
  "'dev External \<Rightarrow> UINT \<Rightarrow> D3D9CommonTexture \<Rightarrow> 'dev \<Rightarrow> error + bool \<times> D3D9CommonTexture \<times> 'dev" where
  "CreateBufferSubresource ext Subresource t d =
     (case array_at (m_buffers t) Subresource of
        Inl e \<Rightarrow> Inl e
      | Inr b \<Rightarrow>
          if b \<noteq> nullptr then Inr (False, t, d)
          else
            (case createBuffer ext (GetMipSize ext t Subresource) d of
               Inl e \<Rightarrow> Inl e
             | Inr (buf, d1) \<Rightarrow>
                 (case array_assign (m_buffers t) Subresource (Ptr buf) of
                    Inl e \<Rightarrow> Inl e
                  | Inr bs \<Rightarrow>
                      if RequiresFixup t then
                        (case createBuffer ext (GetFixupSize ext t Subresource) d1 of
                           Inl e \<Rightarrow> Inl e
                         | Inr (fbuf, d2) \<Rightarrow>
                             (case array_assign (m_fixupBuffers t) Subresource (Ptr fbuf) of
                                Inl e \<Rightarrow> Inl e
                              | Inr fs \<Rightarrow>
                                  Inr (True, t\<lparr>m_buffers := bs, m_fixupBuffers := fs\<rparr>, d2)))
                      else Inr (True, t\<lparr>m_buffers := bs\<rparr>, d1))))"

text \<open>
  Two calls of \<open>CreateBufferSubresource\<close> for one subresource in succession: the two
  reports, and the texture and the device after the second call.
\<close>

definition CreateBufferSubresource_twice ::
  "'dev External \<Rightarrow> UINT \<Rightarrow> D3D9CommonTexture \<Rightarrow> 'dev
     \<Rightarrow> error + bool \<times> bool \<times> D3D9CommonTexture \<times> 'dev" where
  "CreateBufferSubresource_twice ext Subresource t d =
     (case CreateBufferSubresource ext Subresource t d of
        Inl e \<Rightarrow> Inl e
      | Inr (r1, t1, d1) \<Rightarrow>
          (case CreateBufferSubresource ext Subresource t1 d1 of
             Inl e \<Rightarrow> Inl e
           | Inr (r2, t2, d2) \<Rightarrow> Inr (r1, r2, t2, d2)))"

text \<open>
  \<open>CreateBuffers\<close>: the loop \<open>for (i = 0; i < count; i++) CreateBufferSubresource(i)\<close>.
  The counter stays below \<open>count\<close>, so \<open>i + 1\<close> does not wrap.
\<close>

function CreateBuffers_loop ::
  "'dev External \<Rightarrow> UINT \<Rightarrow> UINT \<Rightarrow> D3D9CommonTexture \<Rightarrow> 'dev \<Rightarrow> error + D3D9CommonTexture \<times> 'dev" where
  "CreateBuffers_loop ext count i t d =
     (if i < count then
        (case CreateBufferSubresource ext i t d of
           Inl e \<Rightarrow> Inl e
         | Inr (allocated, t', d') \<Rightarrow> CreateBuffers_loop ext count (i + 1) t' d')
      else Inr (t, d))"
  by pat_completeness auto
termination
  apply (relation "measure (\<lambda>(ext, count, i, t, d). unat count - unat i)")
   apply simp
  apply simp
  apply unat_arith
  done

declare CreateBuffers_loop.simps [simp del]

definition CreateBuffers ::
  "'dev External \<Rightarrow> D3D9CommonTexture \<Rightarrow> 'dev \<Rightarrow> error + D3D9CommonTexture \<times> 'dev" where
  "CreateBuffers ext t d = CreateBuffers_loop ext (CountSubresources t) 0 t d"

text \<open>
  Modelled from the spec: the constructor is declared in the header and its body is
  missing. Sections 2 and 3 of the specification: it stores the description and the
  resource kind and fixes the mapping mode, once, from the stored description. The
  members that the missing builders fill in (image, views, native format, shadow state,
  size) and the initial content of the arrays come with \<open>rest\<close>.
\<close>

definition new_D3D9CommonTexture ::
  "D3D9_COMMON_TEXTURE_DESC \<Rightarrow> D3DRESOURCETYPE \<Rightarrow> D3D9CommonTexture \<Rightarrow> D3D9CommonTexture" where
  "new_D3D9CommonTexture pDesc ResourceType rest =
     (let t = rest\<lparr>m_desc := pDesc, m_type := ResourceType\<rparr>
      in t\<lparr>m_mapMode := DetermineMapMode t\<rparr>)"

subsection \<open>Sequences of calls on one texture\<close>

text \<open>
  The member functions of the header that change the texture, as a datatype of calls,
  and the effect of a sequence of them. A call that fails ends the sequence.
\<close>

datatype call =
    Call_SetLockFlags UINT DWORD
  | Call_GetResolveImage
  | Call_CreateBufferSubresource UINT
  | Call_CreateBuffers
  | Call_DestroyBufferSubresource UINT
  | Call_RecreateSampledView UINT

fun perform ::
  "'dev External \<Rightarrow> call \<Rightarrow> D3D9CommonTexture \<Rightarrow> 'dev \<Rightarrow> error + D3D9CommonTexture \<times> 'dev" where
  "perform ext (Call_SetLockFlags i f) t d =
     (case SetLockFlags i f t of Inl e \<Rightarrow> Inl e | Inr t' \<Rightarrow> Inr (t', d))"
| "perform ext Call_GetResolveImage t d =
     (case GetResolveImage ext t d of Inl e \<Rightarrow> Inl e | Inr (h, t', d') \<Rightarrow> Inr (t', d'))"
| "perform ext (Call_CreateBufferSubresource i) t d =
     (case CreateBufferSubresource ext i t d of Inl e \<Rightarrow> Inl e | Inr (r, t', d') \<Rightarrow> Inr (t', d'))"
| "perform ext Call_CreateBuffers t d = CreateBuffers ext t d"
| "perform ext (Call_DestroyBufferSubresource i) t d =
     (case DestroyBufferSubresource i t of Inl e \<Rightarrow> Inl e | Inr t' \<Rightarrow> Inr (t', d))"
| "perform ext (Call_RecreateSampledView lod) t d = RecreateSampledView ext lod t d"

fun perform_all ::
  "'dev External \<Rightarrow> call list \<Rightarrow> D3D9CommonTexture \<Rightarrow> 'dev \<Rightarrow> error + D3D9CommonTexture \<times> 'dev" where
  "perform_all ext [] t d = Inr (t, d)"
| "perform_all ext (c # cs) t d =
     (case perform ext c t d of Inl e \<Rightarrow> Inl e | Inr (t', d') \<Rightarrow> perform_all ext cs t' d')"

subsection \<open>Normalisation of a description\<close>

text \<open>
  Modelled from the spec: the value by which a caller requests the "automatic" mip
  count is not in the sources. Section 4.1 of the specification calls it a sentinel; it
  is the count 0, which no mip chain has.
\<close>

definition AutomaticMipLevels :: UINT where
  "AutomaticMipLevels = 0"

text \<open>The multisample type of a description that is not multisampled.\<close>

definition D3DMULTISAMPLE_NONE :: UINT where
  "D3DMULTISAMPLE_NONE = 0"

text \<open>
  Modelled from the spec: the length of the full mip chain, which section 3 of the
  specification gives as \<open>floor(log2(max(width, height, depth))) + 1\<close>; \<open>floorlog 2 n\<close>
  is that number for a positive \<open>n\<close>. The function that computes it is not in the
  sources.
\<close>

definition FullMipChain :: "D3D9_COMMON_TEXTURE_DESC \<Rightarrow> UINT" where
  "FullMipChain pDesc =
     of_nat (floorlog 2 (max (unat (Width pDesc)) (max (unat (Height pDesc)) (unat (Depth pDesc)))))"

text \<open>
  Modelled from the spec: \<open>NormalizeTextureProperties\<close> is declared in the header and
  its body is missing. Sections 3 and 4.1 of the specification: the spatial dimensions
  and the array size are at least 1; a request for the "automatic" mip count is filled
  with the full chain; multisampling combined with several mip levels is rejected; the
  result is a status, and a rejected description is not handed back. The function takes
  the description alone, so the resource kind plays no part in it.
\<close>

definition NormalizeTextureProperties ::
  "D3D9_COMMON_TEXTURE_DESC \<Rightarrow> error + D3D9_COMMON_TEXTURE_DESC" where
  "NormalizeTextureProperties pDesc =
     (if Width pDesc = 0 \<or> Height pDesc = 0 \<or> Depth pDesc = 0 \<or> ArraySize pDesc = 0
      then Inl D3DERR_INVALIDCALL
      else
        (let d = (if MipLevels pDesc = AutomaticMipLevels
                  then pDesc\<lparr>MipLevels := FullMipChain pDesc\<rparr> else pDesc)
         in if MultiSample d \<noteq> D3DMULTISAMPLE_NONE \<and> 1 < MipLevels d
            then Inl D3DERR_INVALIDCALL
            else Inr d))"

subsection \<open>Concrete textures and a concrete device\<close>

text \<open>
  The two scenarios of section 8 of the specification, with subresource arrays of
  length 4 and no buffers yet, and a device that never fails and numbers the objects it
  creates.
\<close>

definition no_views :: D3D9ViewSet where
  "no_views =
     (let nc = \<lparr>Color = nullptr, Srgb = nullptr\<rparr>
      in \<lparr>Sample = nc, MipGenRT = nullptr,
          FaceSample = Array6 nc nc nc nc nc nc,
          FaceRenderTarget = Array6 nc nc nc nc nc nc,
          FaceDepth = Array6 nullptr nullptr nullptr nullptr nullptr nullptr\<rparr>)"

definition desc_A :: D3D9_COMMON_TEXTURE_DESC where
  "desc_A = \<lparr>Width = 256, Height = 256, Depth = 1, ArraySize = 1, MipLevels = 4,
     Usage = 0, Format = OtherFormat 21, Pool = D3DPOOL_DEFAULT, Discard = False,
     MultiSample = 0, MultisampleQuality = 0\<rparr>"

definition desc_B :: D3D9_COMMON_TEXTURE_DESC where
  "desc_B = \<lparr>Width = 64, Height = 64, Depth = 1, ArraySize = 1, MipLevels = 1,
     Usage = 0, Format = R8G8B8, Pool = D3DPOOL_DEFAULT, Discard = False,
     MultiSample = 0, MultisampleQuality = 0\<rparr>"

definition image_A :: DxvkImage where
  "image_A = \<lparr>imageId = 0, info = \<lparr>sampleCount = 1, tiling = VK_IMAGE_TILING_OPTIMAL\<rparr>\<rparr>"

definition blank :: D3D9CommonTexture where
  "blank = \<lparr>m_desc = desc_A, m_type = D3DRTYPE_TEXTURE,
     m_mapMode = D3D9_COMMON_TEXTURE_MAP_MODE_NONE,
     m_image = Ptr image_A, m_resolveImage = nullptr,
     m_buffers = [nullptr, nullptr, nullptr, nullptr],
     m_fixupBuffers = [nullptr, nullptr, nullptr, nullptr],
     m_lockFlags = [0, 0, 0, 0],
     m_views = no_views, m_format = 0, m_shadow = False, m_size = 0\<rparr>"

definition scenario_A :: D3D9CommonTexture where
  "scenario_A = blank\<lparr>m_mapMode := D3D9_COMMON_TEXTURE_MAP_MODE_BACKED\<rparr>"

definition scenario_B :: D3D9CommonTexture where
  "scenario_B = blank\<lparr>m_desc := desc_B, m_mapMode := D3D9_COMMON_TEXTURE_MAP_MODE_BACKED\<rparr>"

text \<open>Scenario B with the buffers of subresource 0 allocated.\<close>

definition scenario_B_buffers :: D3D9CommonTexture where
  "scenario_B_buffers =
     scenario_B\<lparr>m_buffers := [Ptr (DxvkBuffer 0), nullptr, nullptr, nullptr],
                 m_fixupBuffers := [Ptr (DxvkBuffer 1), nullptr, nullptr, nullptr]\<rparr>"

text \<open>
  Scenario A as a render target: face 0 has a render-target view pair on the backing
  image, and there is no depth view.
\<close>

definition render_target_A :: D3D9CommonTexture where
  "render_target_A =
     (let nc = \<lparr>Color = nullptr, Srgb = nullptr\<rparr>;
          rt = \<lparr>Color = Ptr \<lparr>viewId = 1, image = image_A\<rparr>,
                Srgb = Ptr \<lparr>viewId = 2, image = image_A\<rparr>\<rparr>
      in scenario_A\<lparr>m_views := no_views\<lparr>FaceRenderTarget := Array6 rt nc nc nc nc nc\<rparr>\<rparr>)"

text \<open>A description whose subresource count does not fit 32 bits.\<close>

definition overflowing :: D3D9CommonTexture where
  "overflowing =
     scenario_A\<lparr>m_desc := desc_A\<lparr>ArraySize := 0x20000, MipLevels := 0x10000\<rparr>\<rparr>"

text \<open>A texture in the scratch pool, and one of the placeholder format in system memory.\<close>

definition scratch_texture :: D3D9CommonTexture where
  "scratch_texture =
     blank\<lparr>m_desc := desc_A\<lparr>Pool := D3DPOOL_SCRATCH\<rparr>,
           m_mapMode := D3D9_COMMON_TEXTURE_MAP_MODE_SYSTEMMEM\<rparr>"

definition null_in_sysmem :: D3D9CommonTexture where
  "null_in_sysmem =
     blank\<lparr>m_desc := desc_A\<lparr>Format := NULL_FORMAT, Pool := D3DPOOL_SYSTEMMEM\<rparr>\<rparr>"

definition counting_device :: "nat External" where
  "counting_device =
     \<lparr>createBuffer = (\<lambda>sz n. Inr (DxvkBuffer n, Suc n)),
      CreateResolveImage = (\<lambda>t n.
        case m_image t of
          nullptr \<Rightarrow> Inl DxvkError
        | Ptr img \<Rightarrow> Inr (\<lparr>imageId = n, info = (info img)\<lparr>sampleCount := 1\<rparr>\<rparr>, Suc n)),
      CreateColorViewPair = (\<lambda>t layer usage lod n.
        case m_image t of
          nullptr \<Rightarrow> Inl DxvkError
        | Ptr img \<Rightarrow>
            Inr (\<lparr>Color = Ptr \<lparr>viewId = n, image = img\<rparr>,
                  Srgb = Ptr \<lparr>viewId = Suc n, image = img\<rparr>\<rparr>, Suc (Suc n))),
      GetMipSize = (\<lambda>t i. 1024),
      GetFixupSize = (\<lambda>t i. 2048)\<rparr>"

section \<open>Properties\<close>

subsection \<open>What the calls leave alone\<close>

lemma CreateBufferSubresource_keeps:
  assumes "CreateBufferSubresource ext i t d = Inr (r, t', d')"
  shows "m_desc t' = m_desc t \<and> m_mapMode t' = m_mapMode t \<and> m_image t' = m_image t
    \<and> m_resolveImage t' = m_resolveImage t \<and> m_lockFlags t' = m_lockFlags t
    \<and> m_views t' = m_views t"
  using assms
  by (auto simp: CreateBufferSubresource_def split: sum.splits if_splits prod.splits)

lemma CreateBuffers_loop_keeps:
  "CreateBuffers_loop ext count i t d = Inr (t', d') \<Longrightarrow>
     m_desc t' = m_desc t \<and> m_mapMode t' = m_mapMode t \<and> m_image t' = m_image t
     \<and> m_resolveImage t' = m_resolveImage t \<and> m_lockFlags t' = m_lockFlags t
     \<and> m_views t' = m_views t"
proof (induction ext count i t d rule: CreateBuffers_loop.induct)
  case (1 ext count i t d)
  show ?case
  proof (cases "i < count")
    case False
    with "1.prems" show ?thesis by (simp add: CreateBuffers_loop.simps [of ext count i])
  next
    case True
    with "1.prems" obtain r t1 d1 where
      step: "CreateBufferSubresource ext i t d = Inr (r, t1, d1)" and
      rest: "CreateBuffers_loop ext count (i + 1) t1 d1 = Inr (t', d')"
      by (auto simp: CreateBuffers_loop.simps [of ext count i] split: sum.splits prod.splits)
    from "1.IH" [OF True step refl refl rest] CreateBufferSubresource_keeps [OF step]
    show ?thesis by simp
  qed
qed

lemma perform_keeps:
  assumes "perform ext c t d = Inr (t', d')"
  shows "m_desc t' = m_desc t \<and> m_mapMode t' = m_mapMode t \<and> m_image t' = m_image t
    \<and> (m_resolveImage t \<noteq> nullptr \<longrightarrow> m_resolveImage t' = m_resolveImage t)"
proof (cases c)
  case (Call_SetLockFlags i f)
  with assms show ?thesis
    by (auto simp: SetLockFlags_def split: sum.splits)
next
  case Call_GetResolveImage
  with assms show ?thesis
    by (auto simp: GetResolveImage_def split: sum.splits if_splits prod.splits)
next
  case (Call_CreateBufferSubresource i)
  with assms show ?thesis
    by (auto split: sum.splits prod.splits dest: CreateBufferSubresource_keeps)
next
  case Call_CreateBuffers
  with assms show ?thesis
    by (auto simp: CreateBuffers_def dest: CreateBuffers_loop_keeps)
next
  case (Call_DestroyBufferSubresource i)
  with assms show ?thesis
    by (auto simp: DestroyBufferSubresource_def split: sum.splits)
next
  case (Call_RecreateSampledView lod)
  with assms show ?thesis
    by (auto simp: RecreateSampledView_def split: sum.splits prod.splits)
qed

lemma perform_all_keeps:
  "perform_all ext cs t d = Inr (t', d') \<Longrightarrow>
     m_desc t' = m_desc t \<and> m_mapMode t' = m_mapMode t \<and> m_image t' = m_image t
     \<and> (m_resolveImage t \<noteq> nullptr \<longrightarrow> m_resolveImage t' = m_resolveImage t)"
proof (induction cs arbitrary: t d)
  case Nil
  then show ?case by simp
next
  case (Cons c cs)
  from Cons.prems obtain t1 d1 where
    step: "perform ext c t d = Inr (t1, d1)" and
    rest: "perform_all ext cs t1 d1 = Inr (t', d')"
    by (auto split: sum.splits prod.splits)
  from Cons.IH [OF rest] perform_keeps [OF step] show ?case
    by auto
qed

subsection \<open>The mapping mode\<close>

lemma DetermineMapMode_construct:
  "DetermineMapMode (new_D3D9CommonTexture pDesc ty rest) =
     (if Format pDesc = NULL_FORMAT then D3D9_COMMON_TEXTURE_MAP_MODE_NONE
      else if Pool pDesc = D3DPOOL_SYSTEMMEM \<or> Pool pDesc = D3DPOOL_SCRATCH
        then D3D9_COMMON_TEXTURE_MAP_MODE_SYSTEMMEM
      else D3D9_COMMON_TEXTURE_MAP_MODE_BACKED)"
  by (simp add: new_D3D9CommonTexture_def DetermineMapMode_def Let_def)

lemma DetermineMapMode_cong:
  "m_desc t' = m_desc t \<Longrightarrow> DetermineMapMode t' = DetermineMapMode t"
  by (simp add: DetermineMapMode_def)

lemma GetMapMode_construct:
  "GetMapMode (new_D3D9CommonTexture pDesc ty rest) = DetermineMapMode (new_D3D9CommonTexture pDesc ty rest)"
  by (simp add: new_D3D9CommonTexture_def GetMapMode_def DetermineMapMode_def Let_def)

text \<open>
  Claim C1. The mapping mode is a function of the format and the pool of the
  description: \<open>NONE\<close> for the placeholder format \<open>NULL_FORMAT\<close>, otherwise
  \<open>SYSTEMMEM\<close> for the pools \<open>SYSTEMMEM\<close> and \<open>SCRATCH\<close>, otherwise \<open>BACKED\<close>. It is
  computed at construction, and after any sequence of calls that follows, \<open>GetMapMode\<close>
  still returns that mode, which is the mode \<open>DetermineMapMode\<close> computes from the
  description.
\<close>

theorem map_mode_fixed_at_construction:
  "GetMapMode (new_D3D9CommonTexture pDesc ty rest) =
     (if Format pDesc = NULL_FORMAT then D3D9_COMMON_TEXTURE_MAP_MODE_NONE
      else if Pool pDesc = D3DPOOL_SYSTEMMEM \<or> Pool pDesc = D3DPOOL_SCRATCH
        then D3D9_COMMON_TEXTURE_MAP_MODE_SYSTEMMEM
      else D3D9_COMMON_TEXTURE_MAP_MODE_BACKED)
   \<and> GetMapMode (new_D3D9CommonTexture pDesc ty rest) = DetermineMapMode (new_D3D9CommonTexture pDesc ty rest)
   \<and> (perform_all ext cs (new_D3D9CommonTexture pDesc ty rest) d = Inr (t', d') \<longrightarrow>
        GetMapMode t' = GetMapMode (new_D3D9CommonTexture pDesc ty rest)
        \<and> GetMapMode t' = DetermineMapMode t')"
proof -
  let ?t = "new_D3D9CommonTexture pDesc ty rest"
  have made: "GetMapMode ?t = DetermineMapMode ?t"
    by (rule GetMapMode_construct)
  have later: "GetMapMode t' = GetMapMode ?t \<and> GetMapMode t' = DetermineMapMode t'"
    if run: "perform_all ext cs ?t d = Inr (t', d')"
  proof -
    from perform_all_keeps [OF run]
    have same: "m_desc t' = m_desc ?t" "m_mapMode t' = m_mapMode ?t"
      by simp_all
    from same(2) have "GetMapMode t' = GetMapMode ?t"
      by (simp add: GetMapMode_def)
    moreover from same(1) have "DetermineMapMode t' = DetermineMapMode ?t"
      by (rule DetermineMapMode_cong)
    ultimately show ?thesis
      using made by simp
  qed
  from made later show ?thesis
    by (simp only: DetermineMapMode_construct) blast
qed

theorem map_mode_fixed_at_construction_witness:
  "\<exists>t' d'. perform_all counting_device
       [Call_SetLockFlags 1 2, Call_CreateBuffers, Call_GetResolveImage,
        Call_RecreateSampledView 1, Call_DestroyBufferSubresource 0]
       (new_D3D9CommonTexture desc_A D3DRTYPE_TEXTURE blank) 0 = Inr (t', d')
     \<and> GetMapMode t' = D3D9_COMMON_TEXTURE_MAP_MODE_BACKED
     \<and> DetermineMapMode t' = D3D9_COMMON_TEXTURE_MAP_MODE_BACKED"
proof -
  let ?cs = "[Call_SetLockFlags 1 2, Call_CreateBuffers, Call_GetResolveImage,
        Call_RecreateSampledView 1, Call_DestroyBufferSubresource 0]"
  have "\<exists>t' d'. perform_all counting_device ?cs (new_D3D9CommonTexture desc_A D3DRTYPE_TEXTURE blank) 0
      = Inr (t', d')"
    by (simp add: new_D3D9CommonTexture_def desc_A_def blank_def counting_device_def Let_def
        SetLockFlags_def array_assign_def array_at_def CreateBuffers_def
        CreateBuffers_loop.simps CountSubresources_def CreateBufferSubresource_def
        RequiresFixup_def GetResolveImage_def RecreateSampledView_def
        DestroyBufferSubresource_def image_A_def)
  then obtain t' d' where
    run: "perform_all counting_device ?cs (new_D3D9CommonTexture desc_A D3DRTYPE_TEXTURE blank) 0 = Inr (t', d')"
    by blast
  note fact = map_mode_fixed_at_construction
    [of desc_A D3DRTYPE_TEXTURE blank counting_device ?cs 0 t' d']
  from fact have made: "GetMapMode (new_D3D9CommonTexture desc_A D3DRTYPE_TEXTURE blank)
      = D3D9_COMMON_TEXTURE_MAP_MODE_BACKED"
    by (simp add: desc_A_def)
  from fact [THEN conjunct2, THEN conjunct2, THEN mp, OF run] made
  have "GetMapMode t' = D3D9_COMMON_TEXTURE_MAP_MODE_BACKED
      \<and> DetermineMapMode t' = D3D9_COMMON_TEXTURE_MAP_MODE_BACKED"
    by metis
  with run show ?thesis by blast
qed

text \<open>
  Claim C2, as amended. For a description whose pool is \<open>SYSTEMMEM\<close> or \<open>SCRATCH\<close>
  and whose format is not the placeholder \<open>NULL_FORMAT\<close>, the computed mode is
  \<open>SYSTEMMEM\<close>; with the placeholder format the mode is \<open>NONE\<close>, whatever the pool.
\<close>

theorem placeholder_format_precedes_pool:
  "(Format (m_desc t) = NULL_FORMAT \<longrightarrow> DetermineMapMode t = D3D9_COMMON_TEXTURE_MAP_MODE_NONE)
   \<and> (Format (m_desc t) \<noteq> NULL_FORMAT
        \<and> (Pool (m_desc t) = D3DPOOL_SYSTEMMEM \<or> Pool (m_desc t) = D3DPOOL_SCRATCH) \<longrightarrow>
        DetermineMapMode t = D3D9_COMMON_TEXTURE_MAP_MODE_SYSTEMMEM)"
  by (simp add: DetermineMapMode_def)

theorem placeholder_format_precedes_pool_witness:
  "Format (m_desc scratch_texture) \<noteq> NULL_FORMAT
   \<and> Pool (m_desc scratch_texture) = D3DPOOL_SCRATCH
   \<and> DetermineMapMode scratch_texture = D3D9_COMMON_TEXTURE_MAP_MODE_SYSTEMMEM
   \<and> Format (m_desc null_in_sysmem) = NULL_FORMAT
   \<and> DetermineMapMode null_in_sysmem = D3D9_COMMON_TEXTURE_MAP_MODE_NONE"
proof -
  have a: "Format (m_desc scratch_texture) \<noteq> NULL_FORMAT"
    and b: "Pool (m_desc scratch_texture) = D3DPOOL_SCRATCH"
    and c: "Format (m_desc null_in_sysmem) = NULL_FORMAT"
    by (simp_all add: scratch_texture_def null_in_sysmem_def desc_A_def)
  from placeholder_format_precedes_pool [of scratch_texture] a b
    placeholder_format_precedes_pool [of null_in_sysmem] c
  show ?thesis by simp
qed

text \<open>
  Claim C2, as stated, fails for the placeholder format in the pool \<open>SYSTEMMEM\<close>: the
  format is tested first, and the mode is \<open>NONE\<close>.
\<close>

theorem null_format_in_system_memory_is_unmapped:
  "Pool (m_desc null_in_sysmem) = D3DPOOL_SYSTEMMEM
   \<and> Format (m_desc null_in_sysmem) = NULL_FORMAT
   \<and> DetermineMapMode null_in_sysmem = D3D9_COMMON_TEXTURE_MAP_MODE_NONE
   \<and> DetermineMapMode null_in_sysmem \<noteq> D3D9_COMMON_TEXTURE_MAP_MODE_SYSTEMMEM"
  by (simp add: null_in_sysmem_def desc_A_def DetermineMapMode_def)

subsection \<open>Buffers, lock flags and layouts\<close>

text \<open>
  Claim C3, as amended. \<open>RequiresFixup\<close> holds exactly for the format \<open>R8G8B8\<close>. For
  every other format \<open>GetCopyBuffer\<close> returns what \<open>GetMappingBuffer\<close> returns, at every
  index. If the two differ at an index, the texture requires the fixup. For a texture
  that requires it, \<open>GetCopyBuffer\<close> returns the fixup slot of the subresource and
  \<open>GetMappingBuffer\<close> the mapping slot, so the two differ exactly when the slots hold
  different handles.
\<close>

theorem copy_buffer_is_fixup_slot:
  "(RequiresFixup t \<longleftrightarrow> Format (m_desc t) = R8G8B8)
   \<and> (Format (m_desc t) \<noteq> R8G8B8 \<longrightarrow> GetCopyBuffer i t = GetMappingBuffer i t)
   \<and> (GetCopyBuffer i t \<noteq> GetMappingBuffer i t \<longrightarrow> RequiresFixup t)
   \<and> (RequiresFixup t \<and> subresource_arrays_sized N t \<and> unat i < N \<longrightarrow>
        GetCopyBuffer i t = Inr (m_fixupBuffers t ! unat i)
        \<and> GetMappingBuffer i t = Inr (m_buffers t ! unat i)
        \<and> (GetCopyBuffer i t \<noteq> GetMappingBuffer i t
             \<longleftrightarrow> m_fixupBuffers t ! unat i \<noteq> m_buffers t ! unat i))"
  by (auto simp: RequiresFixup_def GetCopyBuffer_def GetMappingBuffer_def array_at_def
      subresource_arrays_sized_def)

lemma scenario_B_buffers_facts:
  "RequiresFixup scenario_B_buffers" "subresource_arrays_sized 4 scenario_B_buffers"
  "Format (m_desc scenario_A) \<noteq> R8G8B8"
  by (simp_all add: scenario_B_buffers_def scenario_B_def scenario_A_def
      desc_B_def desc_A_def blank_def RequiresFixup_def subresource_arrays_sized_def)

theorem copy_buffer_is_fixup_slot_witness:
  "RequiresFixup scenario_B_buffers
   \<and> GetCopyBuffer 0 scenario_B_buffers = Inr (Ptr (DxvkBuffer 1))
   \<and> GetMappingBuffer 0 scenario_B_buffers = Inr (Ptr (DxvkBuffer 0))
   \<and> GetCopyBuffer 0 scenario_B_buffers \<noteq> GetMappingBuffer 0 scenario_B_buffers
   \<and> \<not> RequiresFixup scenario_A
   \<and> GetCopyBuffer 2 scenario_A = GetMappingBuffer 2 scenario_A"
proof -
  have slots: "m_fixupBuffers scenario_B_buffers ! unat (0 :: UINT) = Ptr (DxvkBuffer 1)"
    "m_buffers scenario_B_buffers ! unat (0 :: UINT) = Ptr (DxvkBuffer 0)"
    by (simp_all add: scenario_B_buffers_def)
  have "unat (0 :: UINT) < 4" by simp
  with copy_buffer_is_fixup_slot [of scenario_B_buffers 0 4] scenario_B_buffers_facts(1,2) slots
  have b: "GetCopyBuffer 0 scenario_B_buffers = Inr (Ptr (DxvkBuffer 1))
     \<and> GetMappingBuffer 0 scenario_B_buffers = Inr (Ptr (DxvkBuffer 0))
     \<and> GetCopyBuffer 0 scenario_B_buffers \<noteq> GetMappingBuffer 0 scenario_B_buffers"
    by simp
  from copy_buffer_is_fixup_slot [of scenario_A 2 4] scenario_B_buffers_facts(3)
  have a: "\<not> RequiresFixup scenario_A \<and> GetCopyBuffer 2 scenario_A = GetMappingBuffer 2 scenario_A"
    by simp
  from a b scenario_B_buffers_facts(1) show ?thesis by simp
qed

text \<open>
  Claim C3, as stated, fails for a texture of the format \<open>R8G8B8\<close> whose subresource
  has no buffers: after \<open>DestroyBufferSubresource\<close> both slots are null, the copy
  buffer equals the mapping buffer, and \<open>RequiresFixup\<close> is still true.
\<close>

theorem fixup_format_without_buffers:
  "DestroyBufferSubresource 0 scenario_B_buffers = Inr scenario_B
   \<and> RequiresFixup scenario_B
   \<and> GetCopyBuffer 0 scenario_B = Inr nullptr
   \<and> GetMappingBuffer 0 scenario_B = Inr nullptr
   \<and> RequiresFixup scenario_B \<noteq> (GetCopyBuffer 0 scenario_B \<noteq> GetMappingBuffer 0 scenario_B)"
  by (simp add: scenario_B_buffers_def scenario_B_def
      desc_B_def blank_def RequiresFixup_def DestroyBufferSubresource_def
      array_assign_def array_at_def GetCopyBuffer_def GetMappingBuffer_def)

text \<open>
  Claim C7. For an index within the subresource arrays, \<open>DestroyBufferSubresource\<close>
  returns, the mapping buffer and the fixup buffer of that subresource are null
  afterwards, and nothing else changes: the mapping buffer, fixup buffer, copy buffer
  and lock flags of every other subresource, all lock flags, the description, the
  mapping mode, the image, the resolve image and the views are as before.
\<close>

theorem DestroyBufferSubresource_frame:
  assumes "subresource_arrays_sized N t" and "unat i < N"
  shows "\<exists>t'. DestroyBufferSubresource i t = Inr t'
     \<and> GetMappingBuffer i t' = Inr nullptr
     \<and> array_at (m_fixupBuffers t') i = Inr nullptr
     \<and> (\<forall>j. j \<noteq> i \<longrightarrow>
          GetMappingBuffer j t' = GetMappingBuffer j t
          \<and> array_at (m_fixupBuffers t') j = array_at (m_fixupBuffers t) j
          \<and> GetCopyBuffer j t' = GetCopyBuffer j t
          \<and> GetLockFlags j t' = GetLockFlags j t)
     \<and> m_lockFlags t' = m_lockFlags t
     \<and> Desc t' = Desc t \<and> GetMapMode t' = GetMapMode t \<and> GetImage t' = GetImage t
     \<and> m_resolveImage t' = m_resolveImage t \<and> GetViews t' = GetViews t
     \<and> t' = t\<lparr>m_buffers := (m_buffers t)[unat i := nullptr],
               m_fixupBuffers := (m_fixupBuffers t)[unat i := nullptr]\<rparr>"
proof -
  let ?t' = "t\<lparr>m_buffers := (m_buffers t)[unat i := nullptr],
               m_fixupBuffers := (m_fixupBuffers t)[unat i := nullptr]\<rparr>"
  from assms have run: "DestroyBufferSubresource i t = Inr ?t'"
    by (simp add: DestroyBufferSubresource_def array_assign_def subresource_arrays_sized_def)
  from assms have here: "GetMappingBuffer i ?t' = Inr nullptr"
    "array_at (m_fixupBuffers ?t') i = Inr nullptr"
    by (simp_all add: GetMappingBuffer_def array_at_def subresource_arrays_sized_def)
  have others: "GetMappingBuffer j ?t' = GetMappingBuffer j t
      \<and> array_at (m_fixupBuffers ?t') j = array_at (m_fixupBuffers t) j
      \<and> GetCopyBuffer j ?t' = GetCopyBuffer j t
      \<and> GetLockFlags j ?t' = GetLockFlags j t" if "j \<noteq> i" for j
  proof -
    from that have "unat j \<noteq> unat i"
      by (simp add: word_unat_eq_iff)
    then show ?thesis
      by (simp add: GetMappingBuffer_def GetCopyBuffer_def GetLockFlags_def array_at_def
          RequiresFixup_def)
  qed
  have rest: "m_lockFlags ?t' = m_lockFlags t" "Desc ?t' = Desc t" "GetMapMode ?t' = GetMapMode t"
    "GetImage ?t' = GetImage t" "m_resolveImage ?t' = m_resolveImage t" "GetViews ?t' = GetViews t"
    by (simp_all add: Desc_def GetMapMode_def GetImage_def GetViews_def)
  from run here others rest show ?thesis
    by blast
qed

theorem DestroyBufferSubresource_frame_witness:
  "DestroyBufferSubresource 0 scenario_B_buffers = Inr scenario_B
   \<and> GetMappingBuffer 0 scenario_B = Inr nullptr
   \<and> GetLockFlags 1 scenario_B = GetLockFlags 1 scenario_B_buffers
   \<and> GetViews scenario_B = GetViews scenario_B_buffers"
proof -
  have sized: "subresource_arrays_sized 4 scenario_B_buffers"
    by (simp add: scenario_B_buffers_def scenario_B_def blank_def
        subresource_arrays_sized_def)
  have idx: "unat (0 :: UINT) < 4"
    by simp
  have run: "DestroyBufferSubresource 0 scenario_B_buffers = Inr scenario_B"
    by (simp add: scenario_B_buffers_def scenario_B_def blank_def
        DestroyBufferSubresource_def array_assign_def)
  from DestroyBufferSubresource_frame [OF sized idx]
  have "GetMappingBuffer 0 scenario_B = Inr nullptr
     \<and> (\<forall>j. j \<noteq> 0 \<longrightarrow> GetLockFlags j scenario_B = GetLockFlags j scenario_B_buffers)
     \<and> GetViews scenario_B = GetViews scenario_B_buffers"
    unfolding run by (elim exE conjE) simp
  with run show ?thesis
    by simp
qed

text \<open>
  Claim C10. For an index within the subresource arrays, \<open>SetLockFlags\<close> returns,
  \<open>GetLockFlags\<close> of that index then returns the flags stored, the lock flags of
  every other index are unchanged, and so are the buffers, the images, the views, the
  description and the mapping mode.
\<close>

theorem SetLockFlags_frame:
  assumes "subresource_arrays_sized N t" and "unat i < N"
  shows "\<exists>t'. SetLockFlags i f t = Inr t'
     \<and> GetLockFlags i t' = Inr f
     \<and> (\<forall>j. j \<noteq> i \<longrightarrow> GetLockFlags j t' = GetLockFlags j t)
     \<and> (\<forall>j. GetMappingBuffer j t' = GetMappingBuffer j t
             \<and> GetCopyBuffer j t' = GetCopyBuffer j t)
     \<and> m_buffers t' = m_buffers t \<and> m_fixupBuffers t' = m_fixupBuffers t
     \<and> GetImage t' = GetImage t \<and> m_resolveImage t' = m_resolveImage t
     \<and> GetViews t' = GetViews t \<and> Desc t' = Desc t \<and> GetMapMode t' = GetMapMode t
     \<and> t' = t\<lparr>m_lockFlags := (m_lockFlags t)[unat i := f]\<rparr>"
proof -
  let ?t' = "t\<lparr>m_lockFlags := (m_lockFlags t)[unat i := f]\<rparr>"
  from assms have run: "SetLockFlags i f t = Inr ?t'"
    by (simp add: SetLockFlags_def array_assign_def subresource_arrays_sized_def)
  from assms have here: "GetLockFlags i ?t' = Inr f"
    by (simp add: GetLockFlags_def array_at_def subresource_arrays_sized_def)
  have others: "GetLockFlags j ?t' = GetLockFlags j t" if "j \<noteq> i" for j
  proof -
    from that have "unat j \<noteq> unat i"
      by (simp add: word_unat_eq_iff)
    then show ?thesis
      by (simp add: GetLockFlags_def array_at_def)
  qed
  have rest: "\<forall>j. GetMappingBuffer j ?t' = GetMappingBuffer j t
             \<and> GetCopyBuffer j ?t' = GetCopyBuffer j t"
    "m_buffers ?t' = m_buffers t" "m_fixupBuffers ?t' = m_fixupBuffers t"
    "GetImage ?t' = GetImage t" "m_resolveImage ?t' = m_resolveImage t"
    "GetViews ?t' = GetViews t" "Desc ?t' = Desc t" "GetMapMode ?t' = GetMapMode t"
    by (simp_all add: GetMappingBuffer_def GetCopyBuffer_def RequiresFixup_def
        Desc_def GetMapMode_def GetImage_def GetViews_def)
  from run here others rest show ?thesis
    by blast
qed

theorem SetLockFlags_frame_witness:
  "\<exists>t'. SetLockFlags 2 0x2000 scenario_A = Inr t'
     \<and> GetLockFlags 2 t' = Inr 0x2000
     \<and> GetLockFlags 1 t' = Inr 0
     \<and> GetMapMode t' = D3D9_COMMON_TEXTURE_MAP_MODE_BACKED"
proof -
  have sized: "subresource_arrays_sized 4 scenario_A"
    by (simp add: scenario_A_def blank_def subresource_arrays_sized_def)
  have idx: "unat (2 :: UINT) < 4" "(1 :: UINT) \<noteq> 2"
    by simp_all
  have before: "GetLockFlags 1 scenario_A = Inr 0"
    "GetMapMode scenario_A = D3D9_COMMON_TEXTURE_MAP_MODE_BACKED"
    by (simp_all add: scenario_A_def blank_def GetLockFlags_def array_at_def GetMapMode_def)
  from SetLockFlags_frame [OF sized idx(1), of "0x2000"] obtain t' where
    t': "SetLockFlags 2 0x2000 scenario_A = Inr t'"
      "GetLockFlags 2 t' = Inr 0x2000"
      "\<forall>j. j \<noteq> 2 \<longrightarrow> GetLockFlags j t' = GetLockFlags j scenario_A"
      "GetMapMode t' = GetMapMode scenario_A"
    by blast
  from t'(3) idx(2) have "GetLockFlags 1 t' = GetLockFlags 1 scenario_A"
    by blast
  with t' before show ?thesis by auto
qed

text \<open>
  Claim C8, as amended. \<open>GetRTLayout\<close> returns \<open>COLOR_ATTACHMENT_OPTIMAL\<close> exactly
  when the colour view of render-target face 0 is not null and the tiling of its image
  is optimal, and \<open>GENERAL\<close> otherwise; \<open>GetDepthLayout\<close> returns
  \<open>DEPTH_STENCIL_ATTACHMENT_OPTIMAL\<close> exactly when the depth view of face 0 is not
  null and the tiling of its image is optimal, and \<open>GENERAL\<close> otherwise.
\<close>

theorem attachment_layouts:
  "GetRTLayout vs =
     (if \<exists>v. Color (elem0 (FaceRenderTarget vs)) = Ptr v
            \<and> tiling (imageInfo v) = VK_IMAGE_TILING_OPTIMAL
      then VK_IMAGE_LAYOUT_COLOR_ATTACHMENT_OPTIMAL else VK_IMAGE_LAYOUT_GENERAL)
   \<and> GetDepthLayout vs =
     (if \<exists>v. elem0 (FaceDepth vs) = Ptr v
            \<and> tiling (imageInfo v) = VK_IMAGE_TILING_OPTIMAL
      then VK_IMAGE_LAYOUT_DEPTH_STENCIL_ATTACHMENT_OPTIMAL else VK_IMAGE_LAYOUT_GENERAL)"
  by (simp add: GetRTLayout_def GetDepthLayout_def split: Rc.splits)

theorem attachment_layouts_witness:
  "GetRTLayout (GetViews render_target_A) = VK_IMAGE_LAYOUT_COLOR_ATTACHMENT_OPTIMAL
   \<and> GetDepthLayout (GetViews render_target_A) = VK_IMAGE_LAYOUT_GENERAL"
  using attachment_layouts [of "GetViews render_target_A"]
  by (simp add: render_target_A_def GetViews_def Let_def no_views_def imageInfo_def image_A_def)

text \<open>
  Claim C8, as stated, fails for a texture whose image has optimal tiling and which has
  no depth view: the render-target layout is the attachment-optimal one, as the tiling
  says, and the depth layout is \<open>GENERAL\<close> all the same, since the view is null.
\<close>

theorem optimal_image_without_depth_view:
  "GetImage render_target_A = Ptr image_A
   \<and> tiling (info image_A) = VK_IMAGE_TILING_OPTIMAL
   \<and> GetRTLayout (GetViews render_target_A) = VK_IMAGE_LAYOUT_COLOR_ATTACHMENT_OPTIMAL
   \<and> GetDepthLayout (GetViews render_target_A) = VK_IMAGE_LAYOUT_GENERAL
   \<and> GetDepthLayout (GetViews render_target_A) \<noteq> VK_IMAGE_LAYOUT_DEPTH_STENCIL_ATTACHMENT_OPTIMAL"
  by (simp add: render_target_A_def GetViews_def GetImage_def Let_def no_views_def
      imageInfo_def image_A_def scenario_A_def blank_def
      GetRTLayout_def GetDepthLayout_def)

subsection \<open>The subresource index\<close>

lemma flat_index_unat:
  fixes face mip A M :: UINT
  assumes "face < A" and "mip < M" and "unat A * unat M < 2 ^ 32"
  shows "unat (face * M + mip) = unat face * unat M + unat mip"
    and "unat face * unat M + unat mip < unat A * unat M"
proof -
  from assms(1,2) have f: "unat face < unat A" and m: "unat mip < unat M"
    by (simp_all add: word_less_nat_alt)
  from f have "Suc (unat face) * unat M \<le> unat A * unat M"
    by (intro mult_le_mono1) simp
  with m show below: "unat face * unat M + unat mip < unat A * unat M"
    by simp
  with assms(3) have small: "unat face * unat M + unat mip < 2 ^ 32"
    by simp
  then have "unat face * unat M < 2 ^ LENGTH(32)"
    by simp
  then have prod: "unat (face * M) = unat face * unat M"
    by (simp only: unat_mult_lem)
  with small have "unat (face * M) + unat mip < 2 ^ LENGTH(32)"
    by simp
  then have "unat (face * M + mip) = unat (face * M) + unat mip"
    by (simp only: unat_add_lem)
  with prod show "unat (face * M + mip) = unat face * unat M + unat mip"
    by simp
qed

lemma count_unat:
  fixes A M :: UINT
  assumes "unat A * unat M < 2 ^ 32"
  shows "unat (A * M) = unat A * unat M"
proof -
  from assms have "unat A * unat M < 2 ^ LENGTH(32)" by simp
  then show ?thesis by (simp only: unat_mult_lem)
qed

lemma flat_index_inverse:
  fixes face mip A M :: UINT
  assumes "face < A" and "mip < M" and "unat A * unat M < 2 ^ 32"
  shows "face * M + mip < A * M"
    and "(face * M + mip) div M = face"
    and "(face * M + mip) mod M = mip"
proof -
  note u = flat_index_unat [OF assms]
  from assms(2) have m: "unat mip < unat M"
    by (simp add: word_less_nat_alt)
  from u count_unat [OF assms(3)] show "face * M + mip < A * M"
    by (simp add: word_less_nat_alt)
  have "unat ((face * M + mip) div M) = (unat face * unat M + unat mip) div unat M"
    by (simp add: unat_div u(1))
  also from m have "\<dots> = unat face"
    by simp
  finally show "(face * M + mip) div M = face"
    by (simp add: word_unat_eq_iff)
  have "unat ((face * M + mip) mod M) = (unat face * unat M + unat mip) mod unat M"
    by (simp add: unat_mod u(1))
  also from m have "\<dots> = unat mip"
    by simp
  finally show "(face * M + mip) mod M = mip"
    by (simp add: word_unat_eq_iff)
qed

lemma index_split:
  fixes idx A M :: UINT
  assumes "idx < A * M" and "unat A * unat M < 2 ^ 32"
  shows "idx div M < A" and "idx mod M < M" and "idx div M * M + idx mod M = idx"
proof -
  from assms have i: "unat idx < unat A * unat M"
    by (simp add: word_less_nat_alt count_unat)
  then have pos: "0 < unat M"
    by (cases "unat M = 0") simp_all
  from i have "unat idx div unat M < unat A"
    by (simp add: less_mult_imp_div_less)
  then show "idx div M < A"
    by (simp add: word_less_nat_alt unat_div)
  from pos show "idx mod M < M"
    by (simp add: word_less_nat_alt unat_mod)
  show "idx div M * M + idx mod M = idx"
    by (rule div_mult_mod_eq)
qed

text \<open>
  Claim C4, as amended. When the product of the array size and the mip-level count
  fits 32 bits, \<open>CalcSubresource\<close> is a bijection from the pairs \<open>(face, mip)\<close> with
  \<open>face < ArraySize\<close> and \<open>mip < MipLevels\<close> onto the indices below
  \<open>CountSubresources\<close>, which is then that product, and \<open>index div MipLevels\<close>,
  \<open>index mod MipLevels\<close> recover the face and the mip level.
\<close>

theorem CalcSubresource_bijection:
  assumes "unat (ArraySize (m_desc t)) * unat (MipLevels (m_desc t)) < 2 ^ 32"
  shows "bij_betw (\<lambda>(face, mip). CalcSubresource t face mip)
       {(face, mip). face < ArraySize (m_desc t) \<and> mip < MipLevels (m_desc t)}
       {idx. idx < CountSubresources t}
     \<and> (\<forall>face mip. face < ArraySize (m_desc t) \<and> mip < MipLevels (m_desc t) \<longrightarrow>
          CalcSubresource t face mip < CountSubresources t
          \<and> CalcSubresource t face mip div MipLevels (m_desc t) = face
          \<and> CalcSubresource t face mip mod MipLevels (m_desc t) = mip)
     \<and> (\<forall>idx. idx < CountSubresources t \<longrightarrow>
          idx div MipLevels (m_desc t) < ArraySize (m_desc t)
          \<and> idx mod MipLevels (m_desc t) < MipLevels (m_desc t)
          \<and> CalcSubresource t (idx div MipLevels (m_desc t)) (idx mod MipLevels (m_desc t)) = idx)
     \<and> unat (CountSubresources t) = unat (ArraySize (m_desc t)) * unat (MipLevels (m_desc t))"
proof -
  let ?A = "ArraySize (m_desc t)" and ?M = "MipLevels (m_desc t)"
  let ?dom = "{(face, mip). face < ?A \<and> mip < ?M}"
  let ?ran = "{idx. idx < CountSubresources t}"
  let ?f = "\<lambda>(face, mip). CalcSubresource t face mip"
  let ?g = "\<lambda>idx. (idx div ?M, idx mod ?M)"
  have fwd: "CalcSubresource t face mip < CountSubresources t
      \<and> CalcSubresource t face mip div ?M = face
      \<and> CalcSubresource t face mip mod ?M = mip"
    if "face < ?A" and "mip < ?M" for face mip
    using flat_index_inverse [OF that assms]
    by (simp add: CalcSubresource_def CountSubresources_def)
  have inv: "idx div ?M < ?A \<and> idx mod ?M < ?M
      \<and> CalcSubresource t (idx div ?M) (idx mod ?M) = idx"
    if "idx < CountSubresources t" for idx
    using index_split [OF that [unfolded CountSubresources_def] assms]
    by (simp add: CalcSubresource_def)
  have "bij_betw ?f ?dom ?ran"
  proof (rule bij_betw_byWitness [where f' = ?g])
    show "\<forall>a\<in>?dom. ?g (?f a) = a"
      using fwd by auto
    show "\<forall>a'\<in>?ran. ?f (?g a') = a'"
      using inv by auto
    show "?f ` ?dom \<subseteq> ?ran"
      using fwd by auto
    show "?g ` ?ran \<subseteq> ?dom"
      using inv by auto
  qed
  moreover have "unat (CountSubresources t) = unat ?A * unat ?M"
    using count_unat [OF assms] by (simp add: CountSubresources_def)
  ultimately show ?thesis
    using fwd inv by blast
qed

theorem CalcSubresource_bijection_witness:
  "bij_betw (\<lambda>(face, mip). CalcSubresource scenario_A face mip)
       {(face, mip). face < 1 \<and> mip < 4} {idx. idx < 4}
   \<and> CountSubresources scenario_A = 4
   \<and> CalcSubresource scenario_A 0 2 = 2"
proof -
  have fields: "ArraySize (m_desc scenario_A) = 1" "MipLevels (m_desc scenario_A) = 4"
    by (simp_all add: scenario_A_def blank_def desc_A_def)
  have cnt: "CountSubresources scenario_A = 4" "CalcSubresource scenario_A 0 2 = 2"
    by (simp_all add: CountSubresources_def CalcSubresource_def fields)
  have "unat (ArraySize (m_desc scenario_A)) * unat (MipLevels (m_desc scenario_A)) < 2 ^ 32"
    by (simp add: fields)
  from CalcSubresource_bijection [OF this, THEN conjunct1] cnt show ?thesis
    by (simp add: fields)
qed

text \<open>
  Claim C4, as stated, fails when the product does not fit 32 bits: with an array
  size of \<open>0x20000\<close> and \<open>0x10000\<close> mip levels the pairs \<open>(0x10000, 0)\<close> and
  \<open>(0, 0)\<close> get the same index, and \<open>CountSubresources\<close> wraps to 0.
\<close>

theorem CalcSubresource_wraps:
  "(0 :: UINT) < ArraySize (m_desc overflowing)
   \<and> (0x10000 :: UINT) < ArraySize (m_desc overflowing)
   \<and> (0 :: UINT) < MipLevels (m_desc overflowing)
   \<and> CalcSubresource overflowing 0x10000 0 = CalcSubresource overflowing 0 0
   \<and> CountSubresources overflowing = 0
   \<and> \<not> CalcSubresource overflowing 0 0 < CountSubresources overflowing"
  by (simp add: overflowing_def scenario_A_def blank_def desc_A_def
      CalcSubresource_def CountSubresources_def)

subsection \<open>Lazy creation and normalisation\<close>

text \<open>
  Claim C5, as amended. When a call of \<open>CreateBufferSubresource\<close> for a subresource
  has returned, a second call for it right after performs no allocation: it reports
  \<open>False\<close> and returns the texture and the device as they were, whatever the
  allocator. The first call reports an allocation exactly when the subresource had no
  mapping buffer before it, and changes nothing otherwise; so one of the two calls
  allocates when the subresource starts without buffers, and none when it has them.
\<close>

theorem CreateBufferSubresource_second_call:
  assumes "CreateBufferSubresource ext i t d = Inr (r1, t1, d1)"
  shows "CreateBufferSubresource ext2 i t1 d1 = Inr (False, t1, d1)
     \<and> (r1 \<longleftrightarrow> GetMappingBuffer i t = Inr nullptr)
     \<and> (\<not> r1 \<longrightarrow> t1 = t \<and> d1 = d)
     \<and> (\<exists>b. GetMappingBuffer i t1 = Inr (Ptr b))
     \<and> CreateBufferSubresource_twice ext i t d = Inr (r1, False, t1, d1)"
proof -
  from assms obtain b where at: "array_at (m_buffers t) i = Inr b"
    by (auto simp: CreateBufferSubresource_def split: sum.splits)
  then have inside: "unat i < length (m_buffers t)"
    by (auto simp: array_at_def split: if_splits)
  show ?thesis
  proof (cases "b = nullptr")
    case False
    with assms at have same: "r1 = False" "t1 = t" "d1 = d"
      by (simp_all add: CreateBufferSubresource_def)
    from False obtain x where "b = Ptr x"
      by (cases b) simp_all
    with False at same show ?thesis
      by (simp add: CreateBufferSubresource_twice_def CreateBufferSubresource_def
          GetMappingBuffer_def)
  next
    case True
    with assms at obtain buf where
      r1: "r1 = True" and bufs: "m_buffers t1 = (m_buffers t)[unat i := Ptr buf]"
      by (auto simp: CreateBufferSubresource_def array_assign_def
          split: sum.splits if_splits prod.splits)
    from bufs inside have "array_at (m_buffers t1) i = Inr (Ptr buf)"
      by (simp add: array_at_def)
    then have second: "CreateBufferSubresource ext2 i t1 d1 = Inr (False, t1, d1)" for ext2
      by (simp add: CreateBufferSubresource_def)
    from second [of ext] assms
    have "CreateBufferSubresource_twice ext i t d = Inr (r1, False, t1, d1)"
      by (simp add: CreateBufferSubresource_twice_def)
    with r1 True at second [of ext2] \<open>array_at (m_buffers t1) i = Inr (Ptr buf)\<close>
    show ?thesis
      by (simp add: GetMappingBuffer_def)
  qed
qed

theorem CreateBufferSubresource_second_call_witness:
  "CreateBufferSubresource counting_device 0 scenario_B 0 = Inr (True, scenario_B_buffers, 2)
   \<and> CreateBufferSubresource counting_device 0 scenario_B_buffers 2
       = Inr (False, scenario_B_buffers, 2)
   \<and> GetMappingBuffer 0 scenario_B = Inr nullptr"
proof -
  have first: "CreateBufferSubresource counting_device 0 scenario_B 0
      = Inr (True, scenario_B_buffers, 2)"
    by (simp add: CreateBufferSubresource_def counting_device_def scenario_B_buffers_def
        scenario_B_def blank_def desc_B_def array_at_def array_assign_def
        RequiresFixup_def numeral_2_eq_2)
  from CreateBufferSubresource_second_call [OF first, of counting_device] first
  show ?thesis by simp
qed

text \<open>
  Claim C5, as stated, fails for a subresource that has its buffers already: neither of
  the two calls allocates, and the device has created nothing more afterwards.
\<close>

theorem CreateBufferSubresource_twice_on_existing_buffers:
  "CreateBufferSubresource_twice counting_device 0 scenario_B_buffers 2
     = Inr (False, False, scenario_B_buffers, 2)"
  by (simp add: CreateBufferSubresource_twice_def CreateBufferSubresource_def
      scenario_B_buffers_def array_at_def)

text \<open>
  Claim C6. When the first call of \<open>GetResolveImage\<close> has returned a handle, the handle
  is not null; it was built by \<open>CreateResolveImage\<close> in that call if the texture had
  none, and is the cached one, with nothing built, otherwise. A call right after, and a
  call after any sequence of further calls on the texture, returns the same handle and
  leaves the texture and the device as they were, whatever \<open>CreateResolveImage\<close>
  would do: nothing is constructed again.
\<close>

theorem GetResolveImage_memoized:
  assumes first: "GetResolveImage ext t d = Inr (h, t1, d1)"
    and later: "perform_all ext2 cs t1 d1 = Inr (t2, d2)"
  shows "h \<noteq> nullptr
     \<and> (m_resolveImage t = nullptr \<longrightarrow>
          (\<exists>img. CreateResolveImage ext t d = Inr (img, d1) \<and> h = Ptr img))
     \<and> (m_resolveImage t \<noteq> nullptr \<longrightarrow> h = m_resolveImage t \<and> t1 = t \<and> d1 = d)
     \<and> GetResolveImage ext3 t1 d1 = Inr (h, t1, d1)
     \<and> GetResolveImage ext3 t2 d2 = Inr (h, t2, d2)"
proof -
  from first have stored: "m_resolveImage t1 = h" and nonnull: "h \<noteq> nullptr"
    by (auto simp: GetResolveImage_def split: if_splits sum.splits prod.splits)
  from first have fresh: "m_resolveImage t = nullptr \<longrightarrow>
      (\<exists>img. CreateResolveImage ext t d = Inr (img, d1) \<and> h = Ptr img)"
    by (auto simp: GetResolveImage_def split: if_splits sum.splits prod.splits)
  from first have cached: "m_resolveImage t \<noteq> nullptr \<longrightarrow> h = m_resolveImage t \<and> t1 = t \<and> d1 = d"
    by (auto simp: GetResolveImage_def split: if_splits sum.splits prod.splits)
  from perform_all_keeps [OF later] stored nonnull have kept: "m_resolveImage t2 = h"
    by simp
  from stored nonnull have again: "GetResolveImage ext3 t1 d1 = Inr (h, t1, d1)"
    by (simp add: GetResolveImage_def)
  from kept nonnull have "GetResolveImage ext3 t2 d2 = Inr (h, t2, d2)"
    by (simp add: GetResolveImage_def)
  with nonnull fresh cached again show ?thesis
    by blast
qed

theorem GetResolveImage_memoized_witness:
  "\<exists>t1 d1 t2 d2.
     GetResolveImage counting_device scenario_A 0
       = Inr (Ptr \<lparr>imageId = 0, info = \<lparr>sampleCount = 1, tiling = VK_IMAGE_TILING_OPTIMAL\<rparr>\<rparr>, t1, d1)
     \<and> perform_all counting_device
         [Call_SetLockFlags 1 2, Call_DestroyBufferSubresource 0, Call_GetResolveImage] t1 d1
       = Inr (t2, d2)
     \<and> GetResolveImage counting_device t2 d2
       = Inr (Ptr \<lparr>imageId = 0, info = \<lparr>sampleCount = 1, tiling = VK_IMAGE_TILING_OPTIMAL\<rparr>\<rparr>, t2, d2)
     \<and> d2 = 1"
proof -
  let ?h = "Ptr \<lparr>imageId = 0, info = \<lparr>sampleCount = 1, tiling = VK_IMAGE_TILING_OPTIMAL\<rparr>\<rparr>"
  let ?t1 = "scenario_A\<lparr>m_resolveImage := ?h\<rparr>"
  let ?cs = "[Call_SetLockFlags 1 2, Call_DestroyBufferSubresource 0, Call_GetResolveImage]"
  have first: "GetResolveImage counting_device scenario_A 0 = Inr (?h, ?t1, 1)"
    by (simp add: GetResolveImage_def counting_device_def scenario_A_def blank_def image_A_def)
  have "\<exists>t2. perform_all counting_device ?cs ?t1 1 = Inr (t2, 1)"
    by (simp add: GetResolveImage_def counting_device_def scenario_A_def blank_def image_A_def
        SetLockFlags_def DestroyBufferSubresource_def array_assign_def)
  then obtain t2 where later: "perform_all counting_device ?cs ?t1 1 = Inr (t2, 1)"
    by blast
  from GetResolveImage_memoized [OF first later, of counting_device]
  have "GetResolveImage counting_device t2 1 = Inr (?h, t2, 1)"
    by simp
  with first later show ?thesis
    by blast
qed

lemma FullMipChain_unat:
  assumes "Width pDesc \<noteq> 0"
  shows "unat (FullMipChain pDesc) =
      nat \<lfloor>log 2 (real (max (unat (Width pDesc)) (max (unat (Height pDesc)) (unat (Depth pDesc)))))\<rfloor> + 1"
proof -
  let ?m = "max (unat (Width pDesc)) (max (unat (Height pDesc)) (unat (Depth pDesc)))"
  from assms have "0 < unat (Width pDesc)"
    by (simp add: unat_gt_0)
  then have pos: "0 < ?m"
    by simp
  have "unat (Width pDesc) < 2 ^ 32" "unat (Height pDesc) < 2 ^ 32" "unat (Depth pDesc) < 2 ^ 32"
    using unsigned_less [of "Width pDesc"] unsigned_less [of "Height pDesc"]
      unsigned_less [of "Depth pDesc"] by simp_all
  then have "?m < 2 ^ 32"
    by simp
  then have "floorlog 2 ?m \<le> 32"
    by (intro floorlog_leI) simp_all
  then have "floorlog 2 ?m < 2 ^ LENGTH(32)"
    by simp
  then have "unat (of_nat (floorlog 2 ?m) :: UINT) = floorlog 2 ?m"
    by (rule of_nat_inverse [OF refl])
  with pos show ?thesis
    by (simp add: FullMipChain_def floorlog_def)
qed

text \<open>
  Claim C9. When \<open>NormalizeTextureProperties\<close> accepts a description, the mip-level
  count of the result is at least 1; if the automatic count was requested, it is
  \<open>floor(log2(max(width, height, depth))) + 1\<close>, and it is the requested count
  otherwise.
\<close>

theorem NormalizeTextureProperties_mip_levels:
  assumes "NormalizeTextureProperties pDesc = Inr d"
  shows "1 \<le> MipLevels d
     \<and> (MipLevels pDesc = AutomaticMipLevels \<longrightarrow>
          unat (MipLevels d) =
            nat \<lfloor>log 2 (real (max (unat (Width pDesc))
              (max (unat (Height pDesc)) (unat (Depth pDesc)))))\<rfloor> + 1)
     \<and> (MipLevels pDesc \<noteq> AutomaticMipLevels \<longrightarrow> MipLevels d = MipLevels pDesc)
     \<and> Width d = Width pDesc \<and> Height d = Height pDesc \<and> Depth d = Depth pDesc"
proof -
  from assms have w: "Width pDesc \<noteq> 0"
    by (auto simp: NormalizeTextureProperties_def split: if_splits)
  note chain = FullMipChain_unat [OF w]
  show ?thesis
  proof (cases "MipLevels pDesc = AutomaticMipLevels")
    case True
    with assms have d: "d = pDesc\<lparr>MipLevels := FullMipChain pDesc\<rparr>"
      by (auto simp: NormalizeTextureProperties_def Let_def split: if_splits)
    from chain have "1 \<le> unat (FullMipChain pDesc)"
      by simp
    then have "1 \<le> FullMipChain pDesc"
      by (simp add: word_le_nat_alt)
    with d True chain show ?thesis
      by simp
  next
    case False
    with assms have d: "d = pDesc"
      by (auto simp: NormalizeTextureProperties_def Let_def split: if_splits)
    from False have "MipLevels pDesc \<noteq> 0"
      by (simp add: AutomaticMipLevels_def)
    then have "1 \<le> MipLevels pDesc"
      by (simp add: word_le_nat_alt unat_gt_0 Suc_le_eq)
    with d False show ?thesis
      by simp
  qed
qed

theorem NormalizeTextureProperties_mip_levels_witness:
  "NormalizeTextureProperties (desc_A\<lparr>MipLevels := AutomaticMipLevels\<rparr>)
     = Inr (desc_A\<lparr>MipLevels := 9\<rparr>)
   \<and> (1 :: UINT) \<le> 9
   \<and> unat (9 :: UINT) = nat \<lfloor>log 2 (real (256 :: nat))\<rfloor> + 1"
proof -
  have nine: "floorlog 2 (256 :: nat) = 9"
    by (simp add: compute_floorlog)
  have run: "NormalizeTextureProperties (desc_A\<lparr>MipLevels := AutomaticMipLevels\<rparr>)
     = Inr (desc_A\<lparr>MipLevels := 9\<rparr>)"
    by (simp add: NormalizeTextureProperties_def desc_A_def Let_def FullMipChain_def
        AutomaticMipLevels_def D3DMULTISAMPLE_NONE_def nine)
  from NormalizeTextureProperties_mip_levels [OF run] run show ?thesis
    by (simp add: desc_A_def)
qed

end
